theory Spec2Isabelle
  imports Main
begin

section \<open>The Optional container of optional_python\<close>

text \<open>
  The repository is one Python class, \<open>Optional\<close> (file \<open>optional_python/Optional.py\<close>).
  An instance has one attribute, \<open>_obj\<close>, written once by \<open>__init__\<close>; the value
  \<open>None\<close> in that slot means that the container is empty. The methods call the
  functions they are given (\<open>function\<close>, \<open>predicate\<close>, \<open>provider\<close>,
  \<open>exception_provider\<close>, \<open>consumer\<close>), which may have effects and may raise.

  The embedding:
  \<^item> Python values are the datatype \<open>pyval\<close>, with \<open>PyNone\<close> for \<open>None\<close>;
  \<^item> an exception is a value \<open>Exn class message\<close>, and a call that may raise returns
    \<open>exn + 'a\<close> (\<open>Inl\<close> the exception);
  \<^item> an instance is a record of its identity (what Python's \<open>is\<close> compares) and its
    \<open>_obj\<close> slot. No method assigns to \<open>_obj\<close> after \<open>__init__\<close>, so the slot is
    part of the value and no store is needed;
  \<^item> the interpreter state is passed explicitly: the next free identity, the log of the
    calls made to the functions given by the caller (one entry, the argument list, per
    call), and the caller's own state \<open>'w\<close>, which only those functions read and write.
\<close>

subsection \<open>Values, exceptions, state\<close>

datatype exn = Exn (exn_class: string) (exn_msg: string)

datatype pyval =
    PyNone
  | PyBool bool
  | PyInt int
  | PyStr string
  | PyExcClass string "string option"
  | PyExc exn
  | PyObj nat

record optional =
  ident :: nat
  obj :: pyval

record 'w state =
  next_id :: nat
  calls :: "pyval list list"
  world :: 'w

type_synonym 'w func = "pyval \<Rightarrow> 'w \<Rightarrow> (exn + pyval) \<times> 'w"

type_synonym 'w supplier = "'w \<Rightarrow> (exn + pyval) \<times> 'w"

text \<open>Calling a function of the caller: the call is logged and the caller's state updated.\<close>

definition invoke1 :: "'w func \<Rightarrow> pyval \<Rightarrow> 'w state \<Rightarrow> (exn + pyval) \<times> 'w state" where
  "invoke1 f x s =
     (case f x (world s) of
        (r, w') \<Rightarrow> (r, s\<lparr>calls := calls s @ [[x]], world := w'\<rparr>))"

definition invoke0 :: "'w supplier \<Rightarrow> 'w state \<Rightarrow> (exn + pyval) \<times> 'w state" where
  "invoke0 f s =
     (case f (world s) of
        (r, w') \<Rightarrow> (r, s\<lparr>calls := calls s @ [[]], world := w'\<rparr>))"

text \<open>Python's truth value of an object, as \<open>if\<close> and \<open>or\<close> test it.\<close>

fun truthy :: "pyval \<Rightarrow> bool" where
  "truthy PyNone = False"
| "truthy (PyBool b) = b"
| "truthy (PyInt i) = (i \<noteq> 0)"
| "truthy (PyStr t) = (t \<noteq> [])"
| "truthy (PyExcClass c m) = True"
| "truthy (PyExc e) = True"
| "truthy (PyObj n) = True"

text \<open>
  The statement \<open>raise x\<close>: an exception instance is raised as it is, an exception class is
  instantiated without arguments, and anything else is a \<open>TypeError\<close> of the interpreter.
  An exception class \<open>PyExcClass c m\<close> carries its name and, when its constructor refuses
  an empty argument list (as that of \<open>UnicodeDecodeError\<close> does), the message of the
  \<open>TypeError\<close> that the instantiation raises.
\<close>

fun py_raise :: "pyval \<Rightarrow> exn" where
  "py_raise (PyExc e) = e"
| "py_raise (PyExcClass c None) = Exn c []"
| "py_raise (PyExcClass c (Some m)) = Exn ''TypeError'' m"
| "py_raise v = Exn ''TypeError'' ''exceptions must derive from BaseException''"

text \<open>
  \<open>TypeError.__new__\<close>, the default of \<open>exception_provider\<close>, as \<open>or_else_throw\<close> calls
  it: with no argument at all. The built-in then lacks the class it should instantiate
  and raises a \<open>TypeError\<close> itself.
\<close>

definition TypeError_new :: "'w supplier" where
  "TypeError_new w = (Inl (Exn ''TypeError'' ''TypeError.__new__(): not enough arguments''), w)"

subsection \<open>Construction\<close>

text \<open>A name between single quotes, as the interpreter's messages show it.\<close>

definition quoted :: "string \<Rightarrow> string" where
  "quoted t = CHR 0x27 # t @ [CHR 0x27]"

text \<open>\<open>__init__(self, obj)\<close>: stores \<open>obj\<close> in the new instance.\<close>

definition init :: "nat \<Rightarrow> pyval \<Rightarrow> optional" where
  "init self_id x = \<lparr>ident = self_id, obj = x\<rparr>"

text \<open>
  The expression \<open>cls(obj)\<close>, for \<open>cls\<close> the class \<open>Optional\<close>. The class is declared
  \<open>class Optional(Generic[T])\<close>, with no metaclass, so calling it is \<open>type.__call__\<close>:
  a new instance is made and \<open>__init__\<close> runs on it. The \<open>__call__\<close> in the class body
  is an instance method: it is what calling an \<^emph>\<open>instance\<close> runs (\<open>call_hook\<close> below), and
  the call of the class does not reach it.
\<close>

definition cls_call :: "pyval \<Rightarrow> 'w state \<Rightarrow> (exn + optional) \<times> 'w state" where
  "cls_call x s = (Inr (init (next_id s) x), s\<lparr>next_id := Suc (next_id s)\<rparr>)"

text \<open>
  \<open>__call__(cls, *args, **kwargs)\<close>, run by \<open>instance(...)\<close>; its first parameter is the
  instance. Building the message reads \<open>cls.__qualname__\<close>, which instances do not have,
  so the \<open>TypeError\<close> of the source is never reached.
\<close>

definition call_hook :: "optional \<Rightarrow> pyval list \<Rightarrow> exn + pyval" where
  "call_hook self args =
     Inl (Exn ''AttributeError''
            (quoted ''Optional'' @ '' object has no attribute '' @ quoted ''__qualname__''))"

text \<open>
  \<open>_create(cls, *args, **kwargs)\<close>, an instance method that no other code calls:
  \<open>super().__call__\<close> is looked up on \<open>Generic\<close> and \<open>object\<close>, which have none.
\<close>

definition create :: "optional \<Rightarrow> pyval list \<Rightarrow> exn + pyval" where
  "create self args =
     Inl (Exn ''AttributeError''
            (quoted ''super'' @ '' object has no attribute '' @ quoted ''__call__''))"

subsection \<open>Queries\<close>

definition get :: "optional \<Rightarrow> exn + pyval" where
  "get self =
     (if obj self = PyNone then Inl (Exn ''TypeError'' ''Optional contains no object'')
      else Inr (obj self))"

definition is_present :: "optional \<Rightarrow> bool" where
  "is_present self = (obj self \<noteq> PyNone)"

definition is_empty_opt :: "optional \<Rightarrow> bool" where
  "is_empty_opt self = (obj self = PyNone)"

subsection \<open>Factories\<close>

definition of_opt :: "pyval \<Rightarrow> 'w state \<Rightarrow> (exn + optional) \<times> 'w state" where
  "of_opt x s =
     (if x = PyNone
      then (Inl (Exn ''AttributeError'' ''The object provided is None, not allowed''), s)
      else cls_call x s)"

definition of_nullable :: "pyval \<Rightarrow> 'w state \<Rightarrow> (exn + optional) \<times> 'w state" where
  "of_nullable x s = cls_call x s"

definition empty_opt :: "'w state \<Rightarrow> (exn + optional) \<times> 'w state" where
  "empty_opt s = cls_call PyNone s"

subsection \<open>Operations\<close>

definition if_present :: "optional \<Rightarrow> 'w func \<Rightarrow> 'w state \<Rightarrow> (exn + pyval) \<times> 'w state" where
  "if_present self consumer s =
     (if is_present self
      then (case invoke1 consumer (obj self) s of
              (Inl e, s') \<Rightarrow> (Inl e, s')
            | (Inr r, s') \<Rightarrow> (Inr PyNone, s'))
      else (Inr PyNone, s))"

definition map_opt :: "optional \<Rightarrow> 'w func \<Rightarrow> 'w state \<Rightarrow> (exn + optional) \<times> 'w state" where
  "map_opt self function s =
     (if is_present self
      then (case invoke1 function (obj self) s of
              (Inl e, s') \<Rightarrow> (Inl e, s')
            | (Inr new_obj, s') \<Rightarrow> of_nullable new_obj s')
      else empty_opt s)"

definition filter_opt :: "optional \<Rightarrow> 'w func \<Rightarrow> 'w state \<Rightarrow> (exn + optional) \<times> 'w state" where
  "filter_opt self predicate s =
     (if is_empty_opt self then (Inr self, s)
      else (case invoke1 predicate (obj self) s of
              (Inl e, s') \<Rightarrow> (Inl e, s')
            | (Inr b, s') \<Rightarrow> if truthy b then (Inr self, s') else empty_opt s'))"

definition or_else :: "optional \<Rightarrow> pyval \<Rightarrow> pyval" where
  "or_else self other_value = (if is_present self then obj self else other_value)"

definition or_else_get :: "optional \<Rightarrow> 'w supplier \<Rightarrow> 'w state \<Rightarrow> (exn + pyval) \<times> 'w state" where
  "or_else_get self provider s =
     (if is_present self then (Inr (obj self), s) else invoke0 provider s)"

definition or_else_throw :: "optional \<Rightarrow> 'w supplier \<Rightarrow> 'w state \<Rightarrow> (exn + pyval) \<times> 'w state" where
  "or_else_throw self exception_provider s =
     (if is_empty_opt self
      then (case invoke0 exception_provider s of
              (Inl e, s') \<Rightarrow> (Inl e, s')
            | (Inr x, s') \<Rightarrow> (Inl (py_raise x), s'))
      else (Inr (obj self), s))"

text \<open>\<open>or_else_throw()\<close>, the parameter left to its default.\<close>

definition or_else_throw_default :: "optional \<Rightarrow> 'w state \<Rightarrow> (exn + pyval) \<times> 'w state" where
  "or_else_throw_default self s = or_else_throw self TypeError_new s"

subsection \<open>Chains of operations\<close>

text \<open>
  One operation after another, as in \<open>Optional.of(v).map(f).map(g)\<close>: the second runs on
  the result of the first, in the state the first has left, unless the first raised.
\<close>

definition and_then ::
  "('w state \<Rightarrow> (exn + 'a) \<times> 'w state) \<Rightarrow> ('a \<Rightarrow> 'w state \<Rightarrow> (exn + 'b) \<times> 'w state) \<Rightarrow>
   'w state \<Rightarrow> (exn + 'b) \<times> 'w state" where
  "and_then m k s =
     (case m s of
        (Inl e, s') \<Rightarrow> (Inl e, s')
      | (Inr a, s') \<Rightarrow> k a s')"

text \<open>The caller's function \<open>lambda x: g(f(x))\<close>, the \<open>compose(g, f)\<close> of the map law.\<close>

definition compose :: "'w func \<Rightarrow> 'w func \<Rightarrow> 'w func" where
  "compose g f x w =
     (case f x w of
        (Inl e, w') \<Rightarrow> (Inl e, w')
      | (Inr y, w') \<Rightarrow> g y w')"

text \<open>
  What a caller sees of an operation that returns a container, the identity of the
  container apart: the exception raised or the content of the slot, and the caller's own
  state afterwards.
\<close>

definition outcome :: "(exn + optional) \<times> 'w state \<Rightarrow> (exn + pyval) \<times> 'w" where
  "outcome rs =
     (case rs of
        (Inl e, s') \<Rightarrow> (Inl e, world s')
      | (Inr c, s') \<Rightarrow> (Inr (obj c), world s'))"

subsection \<open>The two states of the specification\<close>

text \<open>
  The specification describes a container by one of two states, \<open>Empty\<close> and
  \<open>Present(value)\<close>, and says for each factory and combinator which state its result is
  in. These definitions follow the specification's words, not the code; the code's slot
  is compared with them below.
\<close>

datatype content = Empty | Present pyval

text \<open>\<open>ofNullable(value)\<close>: present if the value is not the absence-marker, empty otherwise.\<close>

definition spec_of_nullable :: "pyval \<Rightarrow> content" where
  "spec_of_nullable v = (if v = PyNone then Empty else Present v)"

text \<open>
  \<open>map(fn)\<close>: if present, \<open>fn\<close> applied to the held value, wrapped as \<open>ofNullable\<close>
  does; if empty, empty. The argument \<open>fn\<close> is the function's result in the state of the
  call; when it raises, the operation returns no container, and the state given here is
  not used.
\<close>

fun spec_map :: "content \<Rightarrow> (pyval \<Rightarrow> exn + pyval) \<Rightarrow> content" where
  "spec_map Empty fn = Empty"
| "spec_map (Present v) fn = (case fn v of Inl e \<Rightarrow> Empty | Inr r \<Rightarrow> spec_of_nullable r)"

text \<open>
  \<open>filter(predicate)\<close>: if empty, empty; if present, the same content when the predicate
  is true of the held value, empty when it is false.
\<close>

fun spec_filter :: "content \<Rightarrow> (pyval \<Rightarrow> exn + pyval) \<Rightarrow> content" where
  "spec_filter Empty pr = Empty"
| "spec_filter (Present v) pr =
     (case pr v of Inl e \<Rightarrow> Empty | Inr b \<Rightarrow> if truthy b then Present v else Empty)"

text \<open>
  The containers that the factories and the combinators of the code return, each with the
  state in which it was returned and with the state that the specification gives to the
  result of that construction path. A combinator may run on a container in any later
  state. Every container that \<open>of\<close>, \<open>of_nullable\<close>, \<open>empty\<close>, \<open>map\<close> or \<open>filter\<close>
  returns, on a receiver that was itself so returned, is covered: the rules ask for
  nothing but the return of the operation.
\<close>

inductive produced :: "optional \<times> 'w state \<Rightarrow> content \<Rightarrow> bool" where
  by_of: "of_opt v s = (Inr c, s') \<Longrightarrow> produced (c, s') (Present v)"
| by_of_nullable: "of_nullable v s = (Inr c, s') \<Longrightarrow> produced (c, s') (spec_of_nullable v)"
| by_empty: "empty_opt s = (Inr c, s') \<Longrightarrow> produced (c, s') Empty"
| by_map: "produced (c, s0) h \<Longrightarrow> map_opt c f s = (Inr d, s') \<Longrightarrow>
     produced (d, s') (spec_map h (\<lambda>v. fst (f v (world s))))"
| by_filter: "produced (c, s0) h \<Longrightarrow> filter_opt c p s = (Inr d, s') \<Longrightarrow>
     produced (d, s') (spec_filter h (\<lambda>v. fst (p v (world s))))"

subsection \<open>Concrete inputs\<close>

text \<open>
  A starting state and a few functions of a caller, used to run the operations on concrete
  inputs. The caller's state is a counter that each of these functions increments, so that
  it counts the calls independently of the log.
\<close>

definition fresh_state :: "nat state" where
  "fresh_state = \<lparr>next_id = 0, calls = [], world = 0\<rparr>"

definition abcd :: optional where
  "abcd = \<lparr>ident = 0, obj = PyStr ''abcd''\<rparr>"

definition nothing :: optional where
  "nothing = \<lparr>ident = 1, obj = PyNone\<rparr>"

text \<open>The length of a string; a \<open>TypeError\<close> on any other value.\<close>

definition len_fn :: "nat func" where
  "len_fn x w =
     (case x of
        PyStr t \<Rightarrow> (Inr (PyInt (int (length t))), Suc w)
      | _ \<Rightarrow> (Inl (Exn ''TypeError'' ''object has no len()''), Suc w))"

text \<open>An integer plus one; a \<open>TypeError\<close> on any other value.\<close>

definition succ_fn :: "nat func" where
  "succ_fn x w =
     (case x of
        PyInt i \<Rightarrow> (Inr (PyInt (i + 1)), Suc w)
      | _ \<Rightarrow> (Inl (Exn ''TypeError'' ''unsupported operand type(s) for +''), Suc w))"

text \<open>\<open>lambda x: None\<close>.\<close>

definition none_fn :: "nat func" where
  "none_fn x w = (Inr PyNone, Suc w)"

text \<open>\<open>lambda x: type(x) is str\<close> and \<open>lambda x: type(x) is int\<close>.\<close>

definition is_str :: "nat func" where
  "is_str x w = (Inr (PyBool (case x of PyStr t \<Rightarrow> True | _ \<Rightarrow> False)), Suc w)"

definition is_int :: "nat func" where
  "is_int x w = (Inr (PyBool (case x of PyInt i \<Rightarrow> True | _ \<Rightarrow> False)), Suc w)"

text \<open>\<open>lambda: "dflt"\<close> and \<open>lambda: KeyError("missing")\<close>.\<close>

definition dflt_supplier :: "nat supplier" where
  "dflt_supplier w = (Inr (PyStr ''dflt''), Suc w)"

definition key_error_supplier :: "nat supplier" where
  "key_error_supplier w = (Inr (PyExc (Exn ''KeyError'' ''missing'')), Suc w)"

section \<open>Properties\<close>

text \<open>
  C4. The container that \<open>empty()\<close> returns is not present, is empty, and \<open>get()\<close> on it
  raises the missing-value error, \<open>TypeError("Optional contains no object")\<close>. On every
  present container \<open>get()\<close> returns the held value and raises nothing.
\<close>

theorem empty_and_get:
  "(\<exists>e. fst (empty_opt s) = Inr e \<and> \<not> is_present e \<and> is_empty_opt e \<and>
        get e = Inl (Exn ''TypeError'' ''Optional contains no object'')) \<and>
   (is_present c \<longrightarrow> get c = Inr (obj c))"
  by (simp add: empty_opt_def cls_call_def init_def is_present_def is_empty_opt_def get_def)

theorem empty_and_get_witness:
  "is_present abcd \<and> get abcd = Inr (PyStr ''abcd'') \<and>
   (\<exists>e. fst (empty_opt fresh_state) = Inr e \<and> \<not> is_present e \<and> is_empty_opt e \<and>
        get e = Inl (Exn ''TypeError'' ''Optional contains no object''))"
  using empty_and_get [of fresh_state abcd]
  by (simp add: is_present_def abcd_def)

text \<open>
  C3. \<open>of(v)\<close> raises exactly when \<open>v\<close> is \<open>None\<close>, and what it raises then is the
  construction-misuse error, \<open>AttributeError("The object provided is None, not allowed")\<close>.
  For every other \<open>v\<close> the container returned is present and \<open>get()\<close> on it returns
  \<open>v\<close>.
\<close>

theorem of_fails_iff_none:
  "((\<exists>e. fst (of_opt v s) = Inl e) \<longleftrightarrow> v = PyNone) \<and>
   (v = PyNone \<longrightarrow>
      fst (of_opt v s) = Inl (Exn ''AttributeError'' ''The object provided is None, not allowed'')) \<and>
   (v \<noteq> PyNone \<longrightarrow> (\<exists>c. fst (of_opt v s) = Inr c \<and> is_present c \<and> get c = Inr v))"
  by (simp add: of_opt_def cls_call_def init_def is_present_def get_def)

theorem of_fails_iff_none_witness:
  "fst (of_opt PyNone fresh_state) =
     Inl (Exn ''AttributeError'' ''The object provided is None, not allowed'') \<and>
   PyStr ''abcd'' \<noteq> PyNone \<and>
   (\<exists>c. fst (of_opt (PyStr ''abcd'') fresh_state) = Inr c \<and> is_present c \<and>
        get c = Inr (PyStr ''abcd''))"
  using of_fails_iff_none [of PyNone fresh_state]
    of_fails_iff_none [of "PyStr ''abcd''" fresh_state]
  by simp

text \<open>
  C1. The claim is that constructing an \<open>Optional\<close> directly, without a factory, raises.
  In the code it does not: \<open>Optional("abcd")\<close> returns a present container holding
  \<open>"abcd"\<close>, as \<open>of("abcd")\<close> would. The three factories themselves build their result
  with the same expression \<open>cls(obj)\<close>.
\<close>

theorem direct_construction_succeeds:
  "cls_call (PyStr ''abcd'') fresh_state = (Inr abcd, fresh_state\<lparr>next_id := 1\<rparr>) \<and>
   is_present abcd \<and> get abcd = Inr (PyStr ''abcd'') \<and>
   cls_call (PyStr ''abcd'') fresh_state = of_opt (PyStr ''abcd'') fresh_state"
  by (simp add: cls_call_def init_def abcd_def fresh_state_def is_present_def get_def of_opt_def)

text \<open>
  What \<open>or_else_throw()\<close> and \<open>get()\<close> raise on an empty container differs in the
  message only.
\<close>

lemma default_error_message:
  "is_empty_opt c \<Longrightarrow>
     fst (or_else_throw_default c s) =
       Inl (Exn ''TypeError'' ''TypeError.__new__(): not enough arguments'') \<and>
     get c = Inl (Exn ''TypeError'' ''Optional contains no object'')"
  by (simp add: or_else_throw_default_def or_else_throw_def invoke0_def TypeError_new_def
      is_empty_opt_def get_def)

text \<open>
  With a provider of the caller, \<open>or_else_throw\<close> on an empty container makes the one
  call and raises the exception object that the call returns.
\<close>

lemma or_else_throw_supplied:
  "is_empty_opt c \<Longrightarrow> p (world s) = (Inr (PyExc e), w') \<Longrightarrow>
     or_else_throw c p s = (Inl e, s\<lparr>calls := calls s @ [[]], world := w'\<rparr>)"
  by (simp add: or_else_throw_def invoke0_def)

text \<open>
  On a present container \<open>or_else_throw\<close> returns the held value, whatever the provider,
  and the state is the one before the call: the provider has not been invoked.
\<close>

lemma or_else_throw_present:
  "is_present c \<Longrightarrow>
     or_else_throw c p s = (Inr (obj c), s) \<and> or_else_throw_default c s = (Inr (obj c), s)"
  by (simp add: or_else_throw_default_def or_else_throw_def is_empty_opt_def is_present_def)

text \<open>
  C2. The claim is that \<open>or_else_throw()\<close>, with no \<open>exception_provider\<close> given, raises
  on an empty container a missing-value error equivalent to the one that \<open>get()\<close> raises.
  In the code it does not. On the container that \<open>empty()\<close> returns, \<open>get()\<close> raises
  \<open>TypeError("Optional contains no object")\<close>, while \<open>or_else_throw()\<close> ends in
  \<open>TypeError("TypeError.__new__(): not enough arguments")\<close>: the default provider,
  \<open>TypeError.__new__\<close>, is called without the class it should instantiate, its call
  fails, and the \<open>raise\<close> of the method never receives an exception to raise. The two
  errors share their class only.
\<close>

theorem or_else_throw_default_on_empty:
  "fst (and_then empty_opt or_else_throw_default fresh_state) =
     Inl (Exn ''TypeError'' ''TypeError.__new__(): not enough arguments'') \<and>
   fst (and_then empty_opt (\<lambda>c s. (get c, s)) fresh_state) =
     Inl (Exn ''TypeError'' ''Optional contains no object'') \<and>
   fst (and_then empty_opt or_else_throw_default fresh_state) \<noteq>
     fst (and_then empty_opt (\<lambda>c s. (get c, s)) fresh_state)"
  by (simp add: and_then_def empty_opt_def cls_call_def init_def or_else_throw_default_def
      or_else_throw_def invoke0_def TypeError_new_def is_empty_opt_def get_def fresh_state_def)

text \<open>
  C6. \<open>map(fn)\<close> on an empty container returns an empty container, and neither the log
  of calls nor the caller's state changes: \<open>fn\<close> is not invoked. On a present container
  holding \<open>v\<close>, when \<open>fn(v)\<close> returns \<open>r\<close>, the log grows by the one call \<open>fn(v)\<close>, the
  caller's state is the one that this call leaves, and the result is what
  \<open>of_nullable(r)\<close> builds: a container whose slot is \<open>r\<close>, empty exactly when \<open>r\<close> is
  \<open>None\<close>.
\<close>

theorem map_contract:
  "(is_empty_opt c \<longrightarrow>
      (\<exists>d s'. map_opt c f s = (Inr d, s') \<and> is_empty_opt d \<and>
         calls s' = calls s \<and> world s' = world s)) \<and>
   (is_present c \<and> f (obj c) (world s) = (Inr r, w') \<longrightarrow>
      (\<exists>d s'. map_opt c f s = (Inr d, s') \<and>
         map_opt c f s = of_nullable r (s\<lparr>calls := calls s @ [[obj c]], world := w'\<rparr>) \<and>
         calls s' = calls s @ [[obj c]] \<and> world s' = w' \<and>
         obj d = r \<and> is_empty_opt d = (r = PyNone) \<and> is_present d = (r \<noteq> PyNone)))"
  by (simp add: map_opt_def invoke1_def of_nullable_def empty_opt_def cls_call_def init_def
      is_empty_opt_def is_present_def)

theorem map_contract_witness:
  "is_empty_opt nothing \<and>
   (\<exists>d s'. map_opt nothing len_fn fresh_state = (Inr d, s') \<and> is_empty_opt d \<and>
      calls s' = [] \<and> world s' = 0) \<and>
   is_present abcd \<and> len_fn (PyStr ''abcd'') 0 = (Inr (PyInt 4), 1) \<and>
   (\<exists>d s'. map_opt abcd len_fn fresh_state = (Inr d, s') \<and>
      calls s' = [[PyStr ''abcd'']] \<and> world s' = 1 \<and> obj d = PyInt 4 \<and> is_present d) \<and>
   none_fn (PyStr ''abcd'') 0 = (Inr PyNone, 1) \<and>
   (\<exists>d s'. map_opt abcd none_fn fresh_state = (Inr d, s') \<and>
      calls s' = [[PyStr ''abcd'']] \<and> world s' = 1 \<and> is_empty_opt d)"
  using map_contract [of nothing len_fn fresh_state PyNone 0]
    map_contract [of abcd len_fn fresh_state "PyInt 4" 1]
    map_contract [of abcd none_fn fresh_state PyNone 1]
  by (auto simp add: is_empty_opt_def is_present_def nothing_def abcd_def fresh_state_def
      len_fn_def none_fn_def)

text \<open>
  C7. \<open>filter(p)\<close> on an empty container returns that very container (same identity, same
  slot) and leaves the state as it was. On a present container holding \<open>v\<close>: when
  \<open>p(v)\<close> is true, the result is again the container itself, and no new instance is made;
  when \<open>p(v)\<close> is false, the result is an empty container.
\<close>

theorem filter_contract:
  "(is_empty_opt c \<longrightarrow> filter_opt c p s = (Inr c, s)) \<and>
   (is_present c \<and> p (obj c) (world s) = (Inr b, w') \<and> truthy b \<longrightarrow>
      filter_opt c p s = (Inr c, s\<lparr>calls := calls s @ [[obj c]], world := w'\<rparr>)) \<and>
   (is_present c \<and> p (obj c) (world s) = (Inr b, w') \<and> \<not> truthy b \<longrightarrow>
      (\<exists>d s'. filter_opt c p s = (Inr d, s') \<and> is_empty_opt d))"
  by (simp add: filter_opt_def invoke1_def empty_opt_def cls_call_def init_def
      is_empty_opt_def is_present_def)

theorem filter_contract_witness:
  "is_empty_opt nothing \<and> filter_opt nothing is_str fresh_state = (Inr nothing, fresh_state) \<and>
   is_present abcd \<and> is_str (PyStr ''abcd'') 0 = (Inr (PyBool True), 1) \<and> truthy (PyBool True) \<and>
   filter_opt abcd is_str fresh_state =
     (Inr abcd, fresh_state\<lparr>calls := [[PyStr ''abcd'']], world := 1\<rparr>) \<and>
   is_int (PyStr ''abcd'') 0 = (Inr (PyBool False), 1) \<and> \<not> truthy (PyBool False) \<and>
   (\<exists>d s'. filter_opt abcd is_int fresh_state = (Inr d, s') \<and> is_empty_opt d)"
  using filter_contract [of nothing is_str fresh_state PyNone 0]
    filter_contract [of abcd is_str fresh_state "PyBool True" 1]
    filter_contract [of abcd is_int fresh_state "PyBool False" 1]
  by (simp add: is_empty_opt_def is_present_def nothing_def abcd_def fresh_state_def
      is_str_def is_int_def)

text \<open>
  C9. \<open>or_else_get(s)\<close> on an empty container makes the one call \<open>s()\<close> and returns what
  it returns (or raises what it raises); on a present container holding \<open>v\<close> it returns
  \<open>v\<close> and the state is unchanged, so \<open>s\<close> has not been invoked.
\<close>

theorem or_else_get_contract:
  "(is_empty_opt c \<longrightarrow>
      or_else_get c supp s =
        (fst (supp (world s)), s\<lparr>calls := calls s @ [[]], world := snd (supp (world s))\<rparr>)) \<and>
   (is_present c \<longrightarrow> or_else_get c supp s = (Inr (obj c), s))"
  by (simp add: or_else_get_def invoke0_def is_empty_opt_def is_present_def split: prod.split)

theorem or_else_get_contract_witness:
  "is_empty_opt nothing \<and> is_present abcd \<and>
   or_else_get nothing dflt_supplier fresh_state =
     (Inr (PyStr ''dflt''), fresh_state\<lparr>calls := [[]], world := 1\<rparr>) \<and>
   or_else_get abcd dflt_supplier fresh_state = (Inr (PyStr ''abcd''), fresh_state)"
  using or_else_get_contract [of nothing dflt_supplier fresh_state]
    or_else_get_contract [of abcd dflt_supplier fresh_state]
  by (simp add: is_empty_opt_def is_present_def nothing_def abcd_def fresh_state_def
      dflt_supplier_def)

text \<open>
  C10. \<open>filter(p)\<close> on an empty container does not invoke \<open>p\<close>: the log of calls and the
  caller's state after the operation are those before it, for every \<open>p\<close>.
\<close>

theorem filter_empty_no_call:
  "is_empty_opt c \<Longrightarrow>
     calls (snd (filter_opt c p s)) = calls s \<and> world (snd (filter_opt c p s)) = world s \<and>
     snd (filter_opt c p s) = s"
  by (simp add: filter_opt_def)

theorem filter_empty_no_call_witness:
  "is_empty_opt nothing \<and>
   calls (snd (filter_opt nothing is_str fresh_state)) = [] \<and>
   world (snd (filter_opt nothing is_str fresh_state)) = 0 \<and>
   snd (filter_opt nothing is_str fresh_state) = fresh_state"
proof -
  have e: "is_empty_opt nothing"
    by (simp add: is_empty_opt_def nothing_def)
  from filter_empty_no_call [OF e, of is_str fresh_state] e show ?thesis
    by (simp add: fresh_state_def)
qed

text \<open>
  The slot of a container that a construction path returns is \<open>None\<close> when the
  specification's state of that path is \<open>Empty\<close>, and is the held value, which is not
  \<open>None\<close>, when the state is \<open>Present\<close>.
\<close>

lemma produced_slot:
  "produced cs h \<Longrightarrow>
     (case h of Empty \<Rightarrow> obj (fst cs) = PyNone | Present v \<Rightarrow> v \<noteq> PyNone \<and> obj (fst cs) = v)"
proof (induction rule: produced.induct)
  case (by_of v s c s')
  from by_of show ?case
    by (auto simp add: of_opt_def cls_call_def init_def split: if_splits)
next
  case (by_of_nullable v s c s')
  from by_of_nullable show ?case
    by (auto simp add: of_nullable_def cls_call_def init_def spec_of_nullable_def)
next
  case (by_empty s c s')
  from by_empty show ?case
    by (auto simp add: empty_opt_def cls_call_def init_def)
next
  case (by_map c s0 h f s d s')
  show ?case
  proof (cases h)
    case Empty
    with by_map show ?thesis
      by (auto simp add: map_opt_def is_present_def empty_opt_def cls_call_def init_def)
  next
    case (Present v)
    with by_map.IH have v: "v \<noteq> PyNone" "obj c = v"
      by simp_all
    obtain r w' where f: "f v (world s) = (r, w')"
      by (cases "f v (world s)")
    from by_map.hyps(2) v f Present show ?thesis
      by (cases r)
        (auto simp add: map_opt_def is_present_def invoke1_def of_nullable_def cls_call_def
          init_def spec_of_nullable_def)
  qed
next
  case (by_filter c s0 h p s d s')
  show ?case
  proof (cases h)
    case Empty
    with by_filter show ?thesis
      by (auto simp add: filter_opt_def is_empty_opt_def)
  next
    case (Present v)
    with by_filter.IH have v: "v \<noteq> PyNone" "obj c = v"
      by simp_all
    obtain r w' where p: "p v (world s) = (r, w')"
      by (cases "p v (world s)")
    from by_filter.hyps(2) v p Present show ?thesis
      by (cases r)
        (auto simp add: filter_opt_def is_empty_opt_def invoke1_def empty_opt_def cls_call_def
          init_def split: if_splits)
  qed
qed

text \<open>
  C5. Let \<open>c\<close> be a container returned by a factory (\<open>of\<close>, \<open>of_nullable\<close>, \<open>empty\<close>)
  or a combinator (\<open>map\<close>, \<open>filter\<close>), and \<open>h\<close> the state that the specification
  gives to the result of that construction path. Then \<open>h\<close> is never \<open>Present(None)\<close>:
  no path holds the absence-marker as a value. When \<open>h\<close> is \<open>Present(v)\<close>, the slot is
  \<open>v\<close>, \<open>is_present()\<close> is true and \<open>get()\<close> returns \<open>v\<close>; when \<open>h\<close> is \<open>Empty\<close>,
  the slot is \<open>None\<close>, \<open>is_empty()\<close> is true and \<open>get()\<close> raises the missing-value
  error. So \<open>is_present()\<close> is true exactly when the path's result holds a value, and
  exactly when the slot is not \<open>None\<close>.
\<close>

theorem produced_invariant:
  assumes "produced (c, s) h"
  shows "h \<noteq> Present PyNone \<and>
         is_present c = (h \<noteq> Empty) \<and> is_present c = (obj c \<noteq> PyNone) \<and>
         is_empty_opt c = (h = Empty) \<and>
         (h = Empty \<longrightarrow> obj c = PyNone \<and>
            get c = Inl (Exn ''TypeError'' ''Optional contains no object'')) \<and>
         (\<forall>v. h = Present v \<longrightarrow> v \<noteq> PyNone \<and> obj c = v \<and> get c = Inr v)"
proof (cases h)
  case Empty
  with produced_slot [OF assms] show ?thesis
    by (simp add: is_present_def is_empty_opt_def get_def)
next
  case (Present v)
  with produced_slot [OF assms] show ?thesis
    by (simp add: is_present_def is_empty_opt_def get_def)
qed

theorem produced_invariant_witness:
  "produced (\<lparr>ident = 1, obj = PyInt 4\<rparr>,
             \<lparr>next_id = 2, calls = [[PyStr ''abcd'']], world = 1::nat\<rparr>) (Present (PyInt 4)) \<and>
   Present (PyInt 4) \<noteq> Present PyNone \<and>
   is_present \<lparr>ident = 1, obj = PyInt 4\<rparr> \<and>
   \<not> is_empty_opt \<lparr>ident = 1, obj = PyInt 4\<rparr> \<and>
   get \<lparr>ident = 1, obj = PyInt 4\<rparr> = Inr (PyInt 4) \<and>
   produced (\<lparr>ident = 0, obj = PyNone\<rparr>, fresh_state\<lparr>next_id := 1\<rparr>) Empty \<and>
   is_empty_opt \<lparr>ident = 0, obj = PyNone\<rparr> \<and>
   \<not> is_present \<lparr>ident = 0, obj = PyNone\<rparr> \<and>
   get \<lparr>ident = 0, obj = PyNone\<rparr> = Inl (Exn ''TypeError'' ''Optional contains no object'')"
proof -
  have e: "produced (\<lparr>ident = 0, obj = PyNone\<rparr>, fresh_state\<lparr>next_id := 1\<rparr>) Empty"
    by (rule by_empty [of fresh_state])
      (simp add: empty_opt_def cls_call_def init_def fresh_state_def)
  have a: "produced (abcd, fresh_state\<lparr>next_id := 1\<rparr>) (Present (PyStr ''abcd''))"
    by (rule by_of [of "PyStr ''abcd''" fresh_state])
      (simp add: of_opt_def cls_call_def init_def abcd_def fresh_state_def)
  have m: "map_opt abcd len_fn (fresh_state\<lparr>next_id := 1\<rparr>) =
      (Inr \<lparr>ident = 1, obj = PyInt 4\<rparr>,
       \<lparr>next_id = 2, calls = [[PyStr ''abcd'']], world = 1::nat\<rparr>)"
    by (simp add: map_opt_def invoke1_def of_nullable_def cls_call_def init_def
        is_present_def abcd_def fresh_state_def len_fn_def)
  have h: "spec_map (Present (PyStr ''abcd''))
      (\<lambda>v. fst (len_fn v (world (fresh_state\<lparr>next_id := 1\<rparr>)))) = Present (PyInt 4)"
    by (simp add: len_fn_def spec_of_nullable_def)
  have b: "produced (\<lparr>ident = 1, obj = PyInt 4\<rparr>,
             \<lparr>next_id = 2, calls = [[PyStr ''abcd'']], world = 1::nat\<rparr>) (Present (PyInt 4))"
    using by_map [OF a m] h by simp
  from produced_invariant [OF b] produced_invariant [OF e] b e show ?thesis
    by simp
qed

text \<open>
  The two chains of the map law agree as soon as \<open>f\<close> does not return \<open>None\<close> on the
  value held; whether \<open>f\<close> or \<open>g\<close> raises, and what \<open>g\<close> returns, does not matter.
\<close>

lemma map_law_general:
  assumes "v \<noteq> PyNone"
    and "fst (f v (world s)) \<noteq> Inr PyNone"
  shows "outcome (and_then (and_then (of_opt v) (\<lambda>c. map_opt c f)) (\<lambda>d. map_opt d g) s) =
         outcome (and_then (of_opt v) (\<lambda>c. map_opt c (compose g f)) s)"
proof (cases "f v (world s)")
  case (Pair r w1)
  show ?thesis
  proof (cases r)
    case (Inl e)
    with Pair assms(1) show ?thesis
      by (simp add: outcome_def and_then_def of_opt_def cls_call_def init_def map_opt_def
          is_present_def invoke1_def compose_def)
  next
    case (Inr y)
    with Pair assms(2) have y: "y \<noteq> PyNone"
      by auto
    obtain r2 w2 where g: "g y w1 = (r2, w2)"
      by (cases "g y w1")
    from Pair Inr assms(1) y g show ?thesis
      by (cases r2)
        (simp_all add: outcome_def and_then_def of_opt_def cls_call_def init_def map_opt_def
          of_nullable_def is_present_def invoke1_def compose_def)
  qed
qed

text \<open>
  C8. The map law. Let \<open>v\<close> be a value other than \<open>None\<close>, and let neither \<open>f\<close>, called
  on \<open>v\<close>, nor \<open>g\<close>, called on what \<open>f\<close> returned, return \<open>None\<close>. Then
  \<open>of(v).map(f).map(g)\<close> and \<open>of(v).map(compose(g, f))\<close> have the same outcome: the same
  content of the resulting container, or the same exception, and the same state of the
  caller.
\<close>

theorem map_composition:
  assumes "v \<noteq> PyNone"
    and "fst (f v (world s)) \<noteq> Inr PyNone"
    and "\<forall>y w1. f v (world s) = (Inr y, w1) \<longrightarrow> fst (g y w1) \<noteq> Inr PyNone"
  shows "outcome (and_then (and_then (of_opt v) (\<lambda>c. map_opt c f)) (\<lambda>d. map_opt d g) s) =
         outcome (and_then (of_opt v) (\<lambda>c. map_opt c (compose g f)) s)"
  using assms(1,2) by (rule map_law_general)

theorem map_composition_witness:
  "PyStr ''abcd'' \<noteq> PyNone \<and>
   fst (len_fn (PyStr ''abcd'') (world fresh_state)) \<noteq> Inr PyNone \<and>
   len_fn (PyStr ''abcd'') (world fresh_state) = (Inr (PyInt 4), 1) \<and>
   fst (succ_fn (PyInt 4) 1) \<noteq> Inr PyNone \<and>
   outcome (and_then (and_then (of_opt (PyStr ''abcd'')) (\<lambda>c. map_opt c len_fn))
              (\<lambda>d. map_opt d succ_fn) fresh_state) = (Inr (PyInt 5), 2) \<and>
   outcome (and_then (of_opt (PyStr ''abcd'')) (\<lambda>c. map_opt c (compose succ_fn len_fn))
              fresh_state) = (Inr (PyInt 5), 2)"
proof -
  have h1: "PyStr ''abcd'' \<noteq> PyNone"
    by simp
  have h2: "fst (len_fn (PyStr ''abcd'') (world fresh_state)) \<noteq> Inr PyNone"
    by (simp add: len_fn_def)
  have h3: "\<forall>y w1. len_fn (PyStr ''abcd'') (world fresh_state) = (Inr y, w1) \<longrightarrow>
      fst (succ_fn y w1) \<noteq> Inr PyNone"
    by (auto simp add: len_fn_def succ_fn_def)
  have r: "outcome (and_then (of_opt (PyStr ''abcd'')) (\<lambda>c. map_opt c (compose succ_fn len_fn))
              fresh_state) = (Inr (PyInt 5), 2)"
    by (simp add: outcome_def and_then_def of_opt_def cls_call_def init_def map_opt_def
        of_nullable_def is_present_def invoke1_def compose_def fresh_state_def len_fn_def
        succ_fn_def)
  have h4: "len_fn (PyStr ''abcd'') (world fresh_state) = (Inr (PyInt 4), 1) \<and>
      fst (succ_fn (PyInt 4) 1) \<noteq> Inr PyNone"
    by (simp add: len_fn_def succ_fn_def fresh_state_def)
  from map_composition [of "PyStr ''abcd''" len_fn fresh_state succ_fn, OF h1 h2 h3]
    r h1 h2 h4 show ?thesis
    by simp
qed

end
